theory Spec2Isabelle
  imports Complex_Main "HOL-Library.Word"
begin

unbundle bit_operations_syntax

section \<open>Packet codec (protocol.py)\<close>

text \<open>
  A Python \<open>bytes\<close> value is a list of 8-bit words. Python integers are unbounded, so
  the CRC register is an \<open>int\<close>; that it stays inside 16 bits is a theorem, not an
  assumption of the model.
\<close>

type_synonym byte = "8 word"
type_synonym bytes = "byte list"

text \<open>The exceptions the codec can raise.\<close>

datatype py_error = StructError | IndexError

subsection \<open>Python primitives used by the codec\<close>

text \<open>\<open>data[i:j]\<close> for non-negative \<open>i\<close>, \<open>j\<close>: never raises, clips at the end.\<close>

definition py_slice :: "bytes \<Rightarrow> nat \<Rightarrow> nat \<Rightarrow> bytes" where
  "py_slice data i j = take (j - i) (drop i data)"

text \<open>\<open>data[-2:]\<close>: the last two bytes, or all of \<open>data\<close> when it is shorter.\<close>

definition last2 :: "bytes \<Rightarrow> bytes" where
  "last2 data = drop (length data - 2) data"

text \<open>\<open>data[:-2]\<close>: everything but the last two bytes, empty when \<open>data\<close> is shorter.\<close>

definition but_last2 :: "bytes \<Rightarrow> bytes" where
  "but_last2 data = take (length data - 2) data"

text \<open>\<open>data[i]\<close> for a non-negative \<open>i\<close>: raises IndexError out of range.\<close>

definition py_index :: "bytes \<Rightarrow> nat \<Rightarrow> py_error + byte" where
  "py_index data i = (if i < length data then Inr (data ! i) else Inl IndexError)"

text \<open>\<open>struct.pack("<H", n)\<close>: two bytes, low byte first; raises outside 0..65535.\<close>

definition pack_H :: "int \<Rightarrow> py_error + bytes" where
  "pack_H n =
     (if 0 \<le> n \<and> n \<le> 65535
      then Inr [word_of_int (n AND 255), word_of_int (drop_bit 8 n)]
      else Inl StructError)"

text \<open>\<open>struct.unpack("<H", b)[0]\<close>: raises unless \<open>b\<close> has exactly two bytes.\<close>

fun unpack_H :: "bytes \<Rightarrow> py_error + int" where
  "unpack_H [lo, hi] = Inr (uint lo + 256 * uint hi)"
| "unpack_H _ = Inl StructError"

text \<open>\<open>b.rstrip(b"\x00")\<close>: drop the trailing zero bytes.\<close>

definition rstrip_nul :: "bytes \<Rightarrow> bytes" where
  "rstrip_nul b = rev (dropWhile (\<lambda>x. x = 0) (rev b))"

text \<open>
  \<open>b.decode("ascii", errors="ignore")\<close>: bytes of 0x80 and above are dropped, every
  other byte becomes the character with that code.
\<close>

definition decode_ascii_ignore :: "bytes \<Rightarrow> string" where
  "decode_ascii_ignore b = map (\<lambda>x. char_of (unat x)) (filter (\<lambda>x. x < 0x80) b)"

subsection \<open>crc16_x25\<close>

text \<open>One pass of the inner loop body: test the low bit, shift, conditionally xor.\<close>

definition crc_shift :: "int \<Rightarrow> int" where
  "crc_shift crc = (if crc AND 1 \<noteq> 0 then drop_bit 1 crc XOR 0x8408 else drop_bit 1 crc)"

text \<open>The body of the outer loop: xor the byte in, then \<open>for _ in range(8)\<close>.\<close>

definition crc_byte :: "int \<Rightarrow> byte \<Rightarrow> int" where
  "crc_byte crc b = (crc_shift ^^ 8) (crc XOR uint b)"

definition crc16_x25 :: "bytes \<Rightarrow> int" where
  "crc16_x25 data = foldl crc_byte 0xFFFF data XOR 0xFFFF"

subsection \<open>validate_packet\<close>

definition validate_packet :: "bytes \<Rightarrow> bool" where
  "validate_packet data =
     (if length data < 10 then False
      else if last2 data \<noteq> [0x0D, 0x0A] then False
      else crc16_x25 (but_last2 data) = 0x0F47)"

subsection \<open>build_packet\<close>

definition build_packet :: "bytes \<Rightarrow> bytes \<Rightarrow> py_error + bytes" where
  "build_packet command data =
     (let header = [0x40, 0x40];
          footer = [0x0D, 0x0A];
          len = 10 + int (length data)
      in case pack_H len of
           Inl e \<Rightarrow> Inl e
         | Inr length_bytes \<Rightarrow>
             (let payload = header @ length_bytes @ command @ data;
                  crc = crc16_x25 payload
              in case pack_H crc of
                   Inl e \<Rightarrow> Inl e
                 | Inr crc_bytes \<Rightarrow> Inr (payload @ crc_bytes @ footer)))"

subsection \<open>parse_status_response\<close>

text \<open>
  The dict \<open>{"voltage", "battery_ok", "charging"}\<close>. The voltage is the exact quotient
  \<open>voltage_raw / 100\<close>; Python's float is the double nearest to it.
\<close>

record status_reading =
  voltage :: real
  battery_ok :: bool
  charging :: bool

definition parse_status_response :: "bytes \<Rightarrow> py_error + status_reading option" where
  "parse_status_response data =
     (if length data < 14 then Inr None
      else if py_slice data 0 2 \<noteq> [0x24, 0x24] then Inr None
      else if py_slice data 4 6 \<noteq> [0x4B, 0x0B] then Inr None
      else if \<not> validate_packet data then Inr None
      else case unpack_H (py_slice data 6 8) of
             Inl e \<Rightarrow> Inl e
           | Inr voltage_raw \<Rightarrow>
               (case py_index data 8 of
                  Inl e \<Rightarrow> Inl e
                | Inr battery_status \<Rightarrow>
                    (case py_index data 9 of
                       Inl e \<Rightarrow> Inl e
                     | Inr charging_byte \<Rightarrow>
                         Inr (Some \<lparr>voltage = real_of_int voltage_raw / 100,
                                    battery_ok = (battery_status = 0x02),
                                    charging = (charging_byte = 0x01)\<rparr>))))"

subsection \<open>parse_device_info_response\<close>

text \<open>The dict \<open>{"model", "hw_version", "fw_version"}\<close>.\<close>

record device_info =
  model :: string
  hw_version :: string
  fw_version :: string

definition parse_device_info_response :: "bytes \<Rightarrow> device_info option" where
  "parse_device_info_response data =
     (if length data < 54 then None
      else if py_slice data 0 2 \<noteq> [0x24, 0x24] then None
      else if py_slice data 4 6 \<noteq> [0x43, 0x01] then None
      else if \<not> validate_packet data then None
      else Some \<lparr>model = decode_ascii_ignore (rstrip_nul (py_slice data 6 16)),
                 hw_version = decode_ascii_ignore (rstrip_nul (py_slice data 16 26)),
                 fw_version = decode_ascii_ignore (rstrip_nul (py_slice data 26 36))\<rparr>)"

section \<open>Polling session (coordinator.py, const.py)\<close>

subsection \<open>Pre-calculated command packets\<close>

definition CMD_STATUS_POLL :: bytes where
  "CMD_STATUS_POLL = [0x40, 0x40, 0x0A, 0x00, 0x0B, 0x0B, 0xA9, 0xB2, 0x0D, 0x0A]"

definition CMD_DEVICE_INFO :: bytes where
  "CMD_DEVICE_INFO = [0x40, 0x40, 0x0A, 0x00, 0x03, 0x01, 0x33, 0xD3, 0x0D, 0x0A]"

subsection \<open>Session state, failures and the observable trace\<close>

text \<open>
  The three attributes of \<open>KonnweiCoordinator\<close> that the poll cycle reads and writes.
  \<open>_response_event\<close> is \<open>None\<close> or an \<open>asyncio.Event\<close>, of which only the flag
  matters: \<open>Some False\<close> is a fresh event, \<open>Some True\<close> one that has been set.
\<close>

record coordinator =
  self_device_info :: "device_info option"
  self_response_data :: "bytes option"
  self_response_event :: "bool option"

text \<open>\<open>__init__\<close>: nothing cached, nothing received, no wait armed.\<close>

definition init_coordinator :: coordinator where
  "init_coordinator =
     \<lparr>self_device_info = None, self_response_data = None, self_response_event = None\<rparr>"

text \<open>The messages of the \<open>UpdateFailed\<close> exceptions the cycle raises.\<close>

datatype update_failed =
    DeviceNotFound
  | DeviceInfoQueryTimeout
  | NoDeviceInfoResponse
  | InvalidDeviceInfoResponse
  | StatusPollTimeout
  | NoStatusResponse
  | InvalidStatusResponse
  | BLEError

text \<open>
  Everything that can leave a coroutine of the session as an exception: \<open>UpdateFailed\<close>,
  the transport's \<open>BleakError\<close>, and an exception escaping from the codec.
\<close>

datatype exn = UpdateFailed update_failed | BleakError | CodecError py_error

text \<open>
  What a cycle does that is visible from outside the session state: the packets handed
  to \<open>client.write_gatt_char\<close> and the calls of the two parsers, in program order.
\<close>

datatype event = Write bytes | ParseDeviceInfo bytes | ParseStatus bytes

text \<open>
  The transport's side of one request: whether \<open>write_gatt_char\<close> returns or raises
  \<open>BleakError\<close>, and the notifications it delivers to the callback, in order, from the
  moment the write is issued until the armed wait is resumed or times out. No
  notification at all is the only way for \<open>asyncio.wait_for\<close> to time out, because
  the callback sets the event on every notification.
\<close>

record exchange =
  write_ok :: bool
  notifications :: "bytes list"

text \<open>
  The transport's side of one poll cycle: whether the device is found, whether
  \<open>BleakClient\<close> connects and \<open>start_notify\<close> returns (or one of them raises
  \<open>BleakError\<close>), the notifications delivered while \<open>start_notify\<close> is awaited, and
  the two exchanges. Leaving the \<open>async with\<close> block is taken not to raise.
\<close>

record cycle_env =
  device_found :: bool
  connect_ok :: bool
  early_notifications :: "bytes list"
  info_exchange :: exchange
  status_exchange :: exchange

text \<open>Python truthiness of an \<open>Optional[bytes]\<close>: \<open>None\<close> and \<open>b""\<close> are false.\<close>

fun truthy :: "bytes option \<Rightarrow> bool" where
  "truthy None = False"
| "truthy (Some d) = (d \<noteq> [])"

subsection \<open>_notification_handler\<close>

definition notification_handler :: "coordinator \<Rightarrow> bytes \<Rightarrow> coordinator" where
  "notification_handler s data =
     (let s1 = s\<lparr>self_response_data := Some data\<rparr>
      in case self_response_event s1 of
           None \<Rightarrow> s1
         | Some _ \<Rightarrow> s1\<lparr>self_response_event := Some True\<rparr>)"

text \<open>
  \<open>await asyncio.wait_for(self._response_event.wait(), timeout)\<close>: the callback runs for
  every notification of the exchange; the wait returns when the event is set and raises
  \<open>TimeoutError\<close> otherwise.
\<close>

definition wait_for_response :: "coordinator \<Rightarrow> bytes list \<Rightarrow> bool \<times> coordinator" where
  "wait_for_response s ns =
     (let s1 = foldl notification_handler s ns
      in (self_response_event s1 = Some True, s1))"

subsection \<open>_fetch_device_info\<close>

text \<open>
  Past the truthiness check \<open>_response_data\<close> is not \<open>None\<close>, so the bytes handed to the
  parser are its content.
\<close>

definition fetch_device_info ::
  "coordinator \<Rightarrow> exchange \<Rightarrow> (exn + unit) \<times> coordinator \<times> event list" where
  "fetch_device_info s x =
     (if self_device_info s \<noteq> None then (Inr (), s, [])
      else
        let s1 = s\<lparr>self_response_data := None, self_response_event := Some False\<rparr>;
            tr = [Write CMD_DEVICE_INFO]
        in if \<not> write_ok x then (Inl BleakError, s1, tr)
           else
             let (signalled, s2) = wait_for_response s1 (notifications x)
             in if \<not> signalled then (Inl (UpdateFailed DeviceInfoQueryTimeout), s2, tr)
                else if \<not> truthy (self_response_data s2)
                  then (Inl (UpdateFailed NoDeviceInfoResponse), s2, tr)
                else
                  let d = the (self_response_data s2);
                      tr2 = tr @ [ParseDeviceInfo d]
                  in case parse_device_info_response d of
                       None \<Rightarrow> (Inl (UpdateFailed InvalidDeviceInfoResponse), s2, tr2)
                     | Some info \<Rightarrow> (Inr (), s2\<lparr>self_device_info := Some info\<rparr>, tr2))"

subsection \<open>_async_update_data\<close>

text \<open>The status exchange: the body of the \<open>async with\<close> block after the identity fetch.\<close>

definition poll_status ::
  "coordinator \<Rightarrow> exchange \<Rightarrow> (exn + status_reading) \<times> coordinator \<times> event list" where
  "poll_status s x =
     (let s1 = s\<lparr>self_response_data := None, self_response_event := Some False\<rparr>;
          tr = [Write CMD_STATUS_POLL]
      in if \<not> write_ok x then (Inl BleakError, s1, tr)
         else
           let (signalled, s2) = wait_for_response s1 (notifications x)
           in if \<not> signalled then (Inl (UpdateFailed StatusPollTimeout), s2, tr)
              else if \<not> truthy (self_response_data s2)
                then (Inl (UpdateFailed NoStatusResponse), s2, tr)
              else
                let d = the (self_response_data s2);
                    tr2 = tr @ [ParseStatus d]
                in case parse_status_response d of
                     Inl e \<Rightarrow> (Inl (CodecError e), s2, tr2)
                   | Inr None \<Rightarrow> (Inl (UpdateFailed InvalidStatusResponse), s2, tr2)
                   | Inr (Some status) \<Rightarrow> (Inr status, s2, tr2))"

text \<open>\<open>except BleakError as err: raise UpdateFailed(...)\<close>; anything else passes.\<close>

fun except_bleak :: "exn + 'a \<Rightarrow> exn + 'a" where
  "except_bleak (Inl BleakError) = Inl (UpdateFailed BLEError)"
| "except_bleak r = r"

text \<open>\<open>finally: self._response_event = None\<close>\<close>

definition finally_clear :: "coordinator \<Rightarrow> coordinator" where
  "finally_clear s = s\<lparr>self_response_event := None\<rparr>"

definition async_update_data ::
  "coordinator \<Rightarrow> cycle_env \<Rightarrow> (exn + status_reading) \<times> coordinator \<times> event list" where
  "async_update_data s env =
     (if \<not> device_found env then (Inl (UpdateFailed DeviceNotFound), s, [])
      else if \<not> connect_ok env then (Inl (UpdateFailed BLEError), finally_clear s, [])
      else
        let s0 = foldl notification_handler s (early_notifications env)
        in case fetch_device_info s0 (info_exchange env) of
             (Inl e, s1, tr1) \<Rightarrow> (except_bleak (Inl e), finally_clear s1, tr1)
           | (Inr _, s1, tr1) \<Rightarrow>
               (case poll_status s1 (status_exchange env) of
                  (r, s2, tr2) \<Rightarrow> (except_bleak r, finally_clear s2, tr1 @ tr2)))"

text \<open>The packets a trace hands to the transport, in order.\<close>

fun writes :: "event list \<Rightarrow> bytes list" where
  "writes [] = []"
| "writes (Write p # tr) = p # writes tr"
| "writes (_ # tr) = writes tr"


section \<open>The CRC register\<close>

text \<open>The register is a 16-bit quantity throughout.\<close>

definition reg16 :: "int \<Rightarrow> bool" where
  "reg16 x \<longleftrightarrow> 0 \<le> x \<and> x < 2 ^ 16"

section \<open>Properties of the codec\<close>

subsection \<open>The shift step is linear over xor\<close>

lemma crc_shift_xor: "crc_shift (x XOR y) = crc_shift x XOR crc_shift y"
  by (cases "even x"; cases "even y")
     (simp_all add: crc_shift_def and_one_eq mod2_eq_if even_xor_iff xor.commute xor.assoc xor.left_commute)

lemma crc_shift_funpow_xor:
  "(crc_shift ^^ n) (x XOR y) = (crc_shift ^^ n) x XOR (crc_shift ^^ n) y"
  by (induction n) (simp_all add: crc_shift_xor)

lemma crc_shift_funpow_low_zero:
  assumes "take_bit 8 x = 0" and "n \<le> 8"
  shows "(crc_shift ^^ n) x = drop_bit n x"
  using assms(2)
proof (induction n)
  case 0
  show ?case by simp
next
  case (Suc n)
  then have n: "n < 8" by simp
  have "bit (take_bit 8 x) n = bit x n" using n by (simp add: bit_take_bit_iff)
  then have "\<not> bit x n" using assms(1) by simp
  then have ev: "even (drop_bit n x)" by (simp add: bit_iff_odd_drop_bit)
  have "(crc_shift ^^ Suc n) x = crc_shift (drop_bit n x)" using Suc by simp
  also have "\<dots> = drop_bit 1 (drop_bit n x)"
    using ev by (simp add: crc_shift_def and_one_eq mod2_eq_if)
  also have "\<dots> = drop_bit (Suc n) x" by simp
  finally show ?case .
qed

lemma crc_shift_range: "reg16 x \<Longrightarrow> reg16 (crc_shift x)"
proof -
  assume "reg16 x"
  then have a: "0 \<le> x" "x < 2 ^ 16" by (simp_all add: reg16_def)
  have d0: "0 \<le> drop_bit 1 x" using a by simp
  have d1: "drop_bit 1 x < 2 ^ 16" using a by (simp add: drop_bit_eq_div)
  have "drop_bit 1 x XOR 0x8408 < 2 ^ 16"
    by (rule XOR_upper [OF d0 d1]) simp
  then show ?thesis using d0 d1 by (simp add: crc_shift_def reg16_def)
qed

lemma crc_shift_funpow_range: "reg16 x \<Longrightarrow> reg16 ((crc_shift ^^ n) x)"
  by (induction n) (simp_all add: crc_shift_range)

lemma uint_byte_reg16: "reg16 (uint (b :: byte))"
proof -
  have "uint b < 2 ^ 8" using uint_bounded [of b] by simp
  then show ?thesis by (simp add: reg16_def)
qed

lemma reg16_xor: "reg16 x \<Longrightarrow> reg16 y \<Longrightarrow> reg16 (x XOR y)"
  unfolding reg16_def using XOR_upper [of x 16 y] by simp

lemma crc_byte_range: "reg16 crc \<Longrightarrow> reg16 (crc_byte crc b)"
  unfolding crc_byte_def by (intro crc_shift_funpow_range reg16_xor uint_byte_reg16)

lemma foldl_crc_byte_range: "reg16 crc \<Longrightarrow> reg16 (foldl crc_byte crc data)"
  by (induction data arbitrary: crc) (simp_all add: crc_byte_range)

lemma crc16_x25_range: "reg16 (crc16_x25 data)"
  unfolding crc16_x25_def
  by (intro reg16_xor foldl_crc_byte_range) (simp_all add: reg16_def)

lemma shift8_255: "(crc_shift ^^ 8) 255 = 0x0F78"
  by code_simp


lemma shift8_const: "(crc_shift ^^ 8) (0x0F78 XOR 255) = 0xF0B8"
  by code_simp

lemma low_byte_cancel:
  "reg16 s \<Longrightarrow> take_bit 8 (s XOR take_bit 8 (s XOR 0xFFFF) XOR 255) = 0"
  by (rule bit_eqI) (auto simp add: bit_simps)


lemma uint_pack_lo: "uint (word_of_int (c AND 255) :: byte) = take_bit 8 c"
proof -
  have "(mask 8 :: int) = 255" by (simp add: mask_eq_exp_minus_1)
  then have "c AND 255 = take_bit 8 c" by (simp add: take_bit_eq_mask)
  then show ?thesis by (simp add: uint_word_of_int_eq)
qed

lemma uint_pack_hi: "reg16 c \<Longrightarrow> uint (word_of_int (drop_bit 8 c) :: byte) = drop_bit 8 c"
proof -
  assume "reg16 c"
  then have "take_bit 16 c = c" by (simp add: reg16_def take_bit_int_eq_self)
  then have "take_bit 8 (drop_bit 8 c) = drop_bit 8 c"
    by (simp add: take_bit_drop_bit)
  then show ?thesis by (simp add: uint_word_of_int_eq)
qed

lemma crc_byte_lo:
  assumes "reg16 s"
  shows "crc_byte s (word_of_int ((s XOR 0xFFFF) AND 255)) = drop_bit 8 s XOR 0x0F78"
proof -
  define y where "y = s XOR take_bit 8 (s XOR 0xFFFF) XOR 255"
  have y0: "take_bit 8 y = 0" unfolding y_def by (rule low_byte_cancel [OF assms])
  have split: "s XOR take_bit 8 (s XOR 0xFFFF) = y XOR 255"
    by (simp add: y_def xor.assoc)
  have dy: "drop_bit 8 y = drop_bit 8 s"
    by (simp add: y_def drop_bit_take_bit)
  have "crc_byte s (word_of_int ((s XOR 0xFFFF) AND 255)) = (crc_shift ^^ 8) (y XOR 255)"
    by (simp only: crc_byte_def uint_pack_lo split)
  also have "\<dots> = (crc_shift ^^ 8) y XOR (crc_shift ^^ 8) 255"
    by (rule crc_shift_funpow_xor)
  also have "\<dots> = drop_bit 8 s XOR 0x0F78"
    by (simp only: crc_shift_funpow_low_zero [OF y0 order_refl] shift8_255 dy)
  finally show ?thesis .
qed

lemma crc_byte_hi:
  assumes "reg16 s"
  shows "crc_byte (drop_bit 8 s XOR 0x0F78) (word_of_int (drop_bit 8 (s XOR 0xFFFF))) = 0xF0B8"
proof -
  have c: "reg16 (s XOR 0xFFFF)" using assms by (intro reg16_xor) (simp_all add: reg16_def)
  have d: "drop_bit 8 (s XOR 0xFFFF) = drop_bit 8 s XOR 255"
    by simp
  have e: "(drop_bit 8 s XOR 0x0F78) XOR (drop_bit 8 s XOR 255) = 0x0F78 XOR 255"
    by (simp add: xor.assoc xor.left_commute)
  have "crc_byte (drop_bit 8 s XOR 0x0F78) (word_of_int (drop_bit 8 (s XOR 0xFFFF)))
        = (crc_shift ^^ 8) ((drop_bit 8 s XOR 0x0F78) XOR drop_bit 8 (s XOR 0xFFFF))"
    by (simp only: crc_byte_def uint_pack_hi [OF c])
  also have "\<dots> = (crc_shift ^^ 8) (0x0F78 XOR 255)"
    by (simp only: d e)
  finally show ?thesis by (simp only: shift8_const)
qed

text \<open>
  The residue: appending the packed CRC of a message to the message drives the register
  to a constant, whatever the message.
\<close>

lemma crc16_x25_residue:
  assumes p: "pack_H (crc16_x25 m) = Inr crc_bytes"
  shows "crc16_x25 (m @ crc_bytes) = 0x0F47"
proof -
  define s where "s = foldl crc_byte 0xFFFF m"
  have s: "reg16 s" unfolding s_def by (rule foldl_crc_byte_range) (simp add: reg16_def)
  have cb: "crc_bytes = [word_of_int ((s XOR 0xFFFF) AND 255), word_of_int (drop_bit 8 (s XOR 0xFFFF))]"
    using p by (simp add: pack_H_def crc16_x25_def s_def split: if_splits)
  have "foldl crc_byte 0xFFFF (m @ crc_bytes) = 0xF0B8"
    by (simp only: foldl_append foldl.simps s_def [symmetric] cb crc_byte_lo [OF s] crc_byte_hi [OF s])
  then show ?thesis by (simp add: crc16_x25_def)
qed

lemma pack_H_crc16_x25:
  "pack_H (crc16_x25 m) =
     Inr [word_of_int (crc16_x25 m AND 255), word_of_int (drop_bit 8 (crc16_x25 m))]"
  using crc16_x25_range [of m] by (simp add: pack_H_def reg16_def)

subsection \<open>Slicing the ends of a packet\<close>

lemma last2_append: "last2 (xs @ [a, b]) = [a, b]"
  by (simp add: last2_def)

lemma but_last2_append: "but_last2 (xs @ [a, b]) = xs"
  by (simp add: but_last2_def)

lemma last2_nth:
  assumes "2 \<le> length data"
  shows "last2 data = [data ! (length data - 2), data ! (length data - 1)]"
proof -
  have "length (last2 data) = 2" using assms by (simp add: last2_def)
  moreover have "last2 data ! 0 = data ! (length data - 2)"
    using assms by (simp add: last2_def)
  moreover have "Suc (length data - 2) = length data - 1" using assms by simp
  then have "last2 data ! 1 = data ! (length data - 1)"
    using assms by (simp add: last2_def)
  ultimately show ?thesis
    by (auto simp add: list_eq_iff_nth_eq less_Suc_eq numeral_2_eq_2)
qed

lemma but_last2_butlast: "but_last2 data = butlast (butlast data)"
proof -
  have "length data - 2 = length data - 1 - 1" by simp
  then show ?thesis by (simp only: but_last2_def butlast_conv_take length_take) simp
qed

subsection \<open>Built packets validate\<close>

text \<open>
  Claim C1. For every 2-byte command code and every payload with
  \<open>10 + len(payload)\<close> inside a u16, \<open>build_packet\<close> returns a packet (it does not
  raise) and \<open>validate_packet\<close> accepts that packet. The reason is the residue of
  CRC-16/X.25: for every message \<open>m\<close>, the CRC of \<open>m\<close> can be packed into two
  little-endian bytes, and \<open>crc16_x25\<close> over \<open>m\<close> followed by those bytes is
  \<open>0x0F47\<close>.
\<close>

theorem build_packet_validates:
  assumes "length command = 2" and "10 + length payload \<le> 65535"
  shows "(\<exists>p. build_packet command payload = Inr p \<and> validate_packet p) \<and>
         (\<exists>crc_bytes. pack_H (crc16_x25 m) = Inr crc_bytes \<and>
                      crc16_x25 (m @ crc_bytes) = 0x0F47)"
proof
  obtain lb where lb: "pack_H (10 + int (length payload)) = Inr lb" and lb2: "length lb = 2"
    using assms(2) by (simp add: pack_H_def)
  define msg where "msg = [0x40, 0x40] @ lb @ command @ payload"
  obtain cb where cb: "pack_H (crc16_x25 msg) = Inr cb" and cb2: "\<exists>a b. cb = [a, b]"
    using pack_H_crc16_x25 [of msg] by simp
  have b: "build_packet command payload = Inr (msg @ cb @ [0x0D, 0x0A])"
    by (simp only: build_packet_def Let_def lb sum.case msg_def [symmetric] cb)
  have len: "\<not> length (msg @ cb @ [0x0D, 0x0A]) < 10"
    using cb2 lb2 assms(1) by (auto simp add: msg_def)
  have "last2 ((msg @ cb) @ [0x0D, 0x0A]) = [0x0D, 0x0A]" by (rule last2_append)
  moreover have "but_last2 ((msg @ cb) @ [0x0D, 0x0A]) = msg @ cb" by (rule but_last2_append)
  ultimately have "validate_packet (msg @ cb @ [0x0D, 0x0A])"
    using len crc16_x25_residue [OF cb] by (simp add: validate_packet_def)
  with b show "\<exists>p. build_packet command payload = Inr p \<and> validate_packet p" by simp
next
  obtain cb where cb: "pack_H (crc16_x25 m) = Inr cb"
    using pack_H_crc16_x25 [of m] by simp
  then show "\<exists>crc_bytes. pack_H (crc16_x25 m) = Inr crc_bytes \<and>
                         crc16_x25 (m @ crc_bytes) = 0x0F47"
    using crc16_x25_residue [OF cb] by simp
qed

theorem build_packet_validates_witness:
  "length [0x05, 0x01 :: byte] = 2 \<and> 10 + length [0x14, 0x00 :: byte] \<le> 65535 \<and>
   (\<exists>p. build_packet [0x05, 0x01] [0x14, 0x00] = Inr p \<and> validate_packet p) \<and>
   (\<exists>crc_bytes. pack_H (crc16_x25 [0x40, 0x40, 0x0A, 0x00, 0x0B, 0x0B]) = Inr crc_bytes \<and>
      crc16_x25 ([0x40, 0x40, 0x0A, 0x00, 0x0B, 0x0B] @ crc_bytes) = 0x0F47)"
  using build_packet_validates [of "[0x05, 0x01]" "[0x14, 0x00]" "[0x40, 0x40, 0x0A, 0x00, 0x0B, 0x0B]"]
  by simp

subsection \<open>What validate_packet accepts\<close>

text \<open>
  Claim C2. \<open>validate_packet(data)\<close> is true if and only if \<open>data\<close> has at least 10
  bytes, its last two bytes are \<open>0x0D 0x0A\<close>, and \<open>crc16_x25\<close> over all bytes but the
  last two is \<open>0x0F47\<close>; an input that fails one of the three is rejected.
\<close>

theorem validate_packet_iff:
  "validate_packet data \<longleftrightarrow>
     10 \<le> length data \<and>
     data ! (length data - 2) = 0x0D \<and> data ! (length data - 1) = 0x0A \<and>
     crc16_x25 (butlast (butlast data)) = 0x0F47"
proof (cases "10 \<le> length data")
  case True
  then have "2 \<le> length data" by simp
  then show ?thesis
    using True by (auto simp add: validate_packet_def last2_nth but_last2_butlast)
next
  case False
  then show ?thesis by (simp add: validate_packet_def)
qed

theorem validate_packet_iff_witness:
  "validate_packet
     [0x24, 0x24, 0x0E, 0x00, 0x4B, 0x0B, 0xEE, 0x04, 0x02, 0x01, 0x08, 0xB4, 0x0D, 0x0A] \<and>
   \<not> validate_packet
     [0x24, 0x24, 0x0E, 0x00, 0x4B, 0x0B, 0xEE, 0x04, 0x02, 0x01, 0x08, 0xB4, 0x00, 0x00]"
proof
  let ?ok = "[0x24, 0x24, 0x0E, 0x00, 0x4B, 0x0B, 0xEE, 0x04, 0x02, 0x01, 0x08, 0xB4, 0x0D, 0x0A] :: bytes"
  let ?bad = "[0x24, 0x24, 0x0E, 0x00, 0x4B, 0x0B, 0xEE, 0x04, 0x02, 0x01, 0x08, 0xB4, 0x00, 0x00] :: bytes"
  have r: "10 \<le> length ?ok \<and> ?ok ! (length ?ok - 2) = 0x0D \<and> ?ok ! (length ?ok - 1) = 0x0A \<and>
           crc16_x25 (butlast (butlast ?ok)) = 0x0F47"
    by code_simp
  show "validate_packet ?ok" by (rule iffD2 [OF validate_packet_iff r])
  have "?bad ! (length ?bad - 2) \<noteq> 0x0D" by simp
  then show "\<not> validate_packet ?bad" using validate_packet_iff [of ?bad] by blast
qed

subsection \<open>The pre-calculated commands\<close>

lemma fetch_device_info_writes:
  "self_device_info s = None \<Longrightarrow>
   writes (snd (snd (fetch_device_info s x))) = [CMD_DEVICE_INFO]"
  by (simp add: fetch_device_info_def Let_def split: prod.splits option.splits)

lemma poll_status_writes: "writes (snd (snd (poll_status s x))) = [CMD_STATUS_POLL]"
  by (simp add: poll_status_def Let_def split: prod.splits option.splits sum.splits)

text \<open>
  Claim C8. The packets the session writes for its two requests are the codec's output:
  the device-info constant is \<open>build_packet(b"\x03\x01")\<close>, the status-poll constant is
  \<open>build_packet(b"\x0b\x0b")\<close>, and the latter is the literal vector
  \<open>40 40 0A 00 0B 0B A9 B2 0D 0A\<close>; an identity fetch without a cached identity writes
  exactly the first, a status exchange exactly the second.
\<close>

theorem commands_are_built:
  "build_packet [0x03, 0x01] [] = Inr CMD_DEVICE_INFO \<and>
   build_packet [0x0B, 0x0B] [] = Inr CMD_STATUS_POLL \<and>
   CMD_STATUS_POLL = [0x40, 0x40, 0x0A, 0x00, 0x0B, 0x0B, 0xA9, 0xB2, 0x0D, 0x0A] \<and>
   (self_device_info s = None \<longrightarrow>
      map Inr (writes (snd (snd (fetch_device_info s x)))) = [build_packet [0x03, 0x01] []]) \<and>
   map Inr (writes (snd (snd (poll_status s y)))) = [build_packet [0x0B, 0x0B] []]"
proof -
  have a: "build_packet [0x03, 0x01] [] = Inr CMD_DEVICE_INFO" by code_simp
  have b: "build_packet [0x0B, 0x0B] [] = Inr CMD_STATUS_POLL" by code_simp
  have c: "CMD_STATUS_POLL = [0x40, 0x40, 0x0A, 0x00, 0x0B, 0x0B, 0xA9, 0xB2, 0x0D, 0x0A]"
    by (simp add: CMD_STATUS_POLL_def)
  have d: "self_device_info s = None \<longrightarrow>
      map Inr (writes (snd (snd (fetch_device_info s x)))) = [build_packet [0x03, 0x01] []]"
    by (simp add: a fetch_device_info_writes)
  have e: "map Inr (writes (snd (snd (poll_status s y)))) = [build_packet [0x0B, 0x0B] []]"
    by (simp add: b poll_status_writes)
  from a b c d e show ?thesis by blast
qed

theorem commands_are_built_witness:
  "self_device_info \<lparr>self_device_info = None, self_response_data = None,
                      self_response_event = None\<rparr> = None \<and>
   map Inr (writes (snd (snd (fetch_device_info
      \<lparr>self_device_info = None, self_response_data = None, self_response_event = None\<rparr>
      \<lparr>write_ok = True, notifications = []\<rparr>)))) = [build_packet [0x03, 0x01] []] \<and>
   map Inr (writes (snd (snd (poll_status
      \<lparr>self_device_info = None, self_response_data = None, self_response_event = None\<rparr>
      \<lparr>write_ok = True, notifications = []\<rparr>)))) = [build_packet [0x0B, 0x0B] []]"
  using commands_are_built
    [of "\<lparr>self_device_info = None, self_response_data = None, self_response_event = None\<rparr>"
        "\<lparr>write_ok = True, notifications = []\<rparr>"
        "\<lparr>write_ok = True, notifications = []\<rparr>"]
  by simp

subsection \<open>The two parsers\<close>

lemma slice_pair:
  assumes "Suc i < length data" and "j = i + 2"
  shows "py_slice data i j = [data ! i, data ! Suc i]"
proof -
  have "drop i data = data ! i # data ! Suc i # drop (Suc (Suc i)) data"
    using assms(1) by (simp add: Cons_nth_drop_Suc Suc_lessD)
  then show ?thesis using assms(2) by (simp add: py_slice_def)
qed

lemma length_slice: "j \<le> length data \<Longrightarrow> length (py_slice data i j) = j - i"
  by (simp add: py_slice_def)

lemma slice_update_right: "j \<le> k \<Longrightarrow> py_slice (data[k := v]) i j = py_slice data i j"
proof (cases "k < i")
  case True
  then show ?thesis by (simp add: py_slice_def drop_update_cancel)
next
  case False
  assume "j \<le> k"
  then have "j - i \<le> k - i" by simp
  then show ?thesis using False
    by (simp add: py_slice_def drop_update_swap take_update_cancel)
qed

lemma slice_update_left: "k < i \<Longrightarrow> py_slice (data[k := v]) i j = py_slice data i j"
  by (simp add: py_slice_def drop_update_cancel)

lemma slice_map_nth:
  assumes "j \<le> length data"
  shows "map (\<lambda>i. data ! i) [i..<j] = py_slice data i j"
  using assms by (auto simp add: list_eq_iff_nth_eq py_slice_def)

lemma rstrip_nul_decomp:
  "\<exists>k. b = rstrip_nul b @ replicate k 0 \<and> (rstrip_nul b = [] \<or> last (rstrip_nul b) \<noteq> 0)"
proof -
  let ?z = "takeWhile (\<lambda>x. x = 0) (rev b)"
  let ?d = "dropWhile (\<lambda>x. x = 0) (rev b)"
  have "rev b = ?z @ ?d" by simp
  then have "b = rev ?d @ rev ?z" by (metis rev_append rev_rev_ident)
  moreover have "\<forall>x\<in>set (rev ?z). x = 0" by (auto dest: set_takeWhileD)
  then have "rev ?z = replicate (length (rev ?z)) 0"
    by (intro replicate_eqI) simp_all
  moreover have "?d = [] \<or> hd ?d \<noteq> 0" using hd_dropWhile [of "\<lambda>x. x = 0" "rev b"] by blast
  then have "rev ?d = [] \<or> last (rev ?d) \<noteq> 0" by (auto simp add: last_rev)
  ultimately show ?thesis unfolding rstrip_nul_def by metis
qed

text \<open>
  Claim C3. \<open>parse_status_response(data)\<close> never raises. It returns \<open>None\<close> if and
  only if \<open>data\<close> is shorter than 14 bytes, or \<open>data[0:2]\<close> is not \<open>24 24\<close>, or
  \<open>data[4:6]\<close> is not \<open>4B 0B\<close>, or \<open>validate_packet(data)\<close> is false. Otherwise it
  returns the reading whose voltage is the little-endian u16 at bytes 6 and 7 divided by
  100, whose \<open>battery_ok\<close> is true exactly when byte 8 is \<open>0x02\<close>, and whose
  \<open>charging\<close> is true exactly when byte 9 is \<open>0x01\<close>.
\<close>

theorem parse_status_response_spec:
  "(parse_status_response data = Inr None \<longleftrightarrow>
      length data < 14 \<or> py_slice data 0 2 \<noteq> [0x24, 0x24] \<or> py_slice data 4 6 \<noteq> [0x4B, 0x0B] \<or>
      \<not> validate_packet data) \<and>
   (\<not> (length data < 14 \<or> py_slice data 0 2 \<noteq> [0x24, 0x24] \<or> py_slice data 4 6 \<noteq> [0x4B, 0x0B] \<or>
      \<not> validate_packet data) \<longrightarrow>
    parse_status_response data =
      Inr (Some \<lparr>voltage = real_of_int (uint (data ! 6) + 256 * uint (data ! 7)) / 100,
                 battery_ok = (data ! 8 = 0x02),
                 charging = (data ! 9 = 0x01)\<rparr>))"
proof (cases "length data < 14")
  case True
  then show ?thesis by (simp add: parse_status_response_def)
next
  case False
  then have "py_slice data 6 8 = [data ! 6, data ! Suc 6]" by (intro slice_pair) simp_all
  then have u: "unpack_H (py_slice data 6 8) = Inr (uint (data ! 6) + 256 * uint (data ! 7))"
    by simp
  have i: "py_index data 8 = Inr (data ! 8)" "py_index data 9 = Inr (data ! 9)"
    using False by (simp_all add: py_index_def)
  show ?thesis using False by (simp add: parse_status_response_def u i)
qed

theorem parse_status_response_spec_witness:
  "parse_status_response
     [0x24, 0x24, 0x0E, 0x00, 0x4B, 0x0B, 0xEE, 0x04, 0x02, 0x01, 0x08, 0xB4, 0x0D, 0x0A] =
   Inr (Some \<lparr>voltage = 1262 / 100, battery_ok = True, charging = True\<rparr>)"
proof -
  let ?d = "[0x24, 0x24, 0x0E, 0x00, 0x4B, 0x0B, 0xEE, 0x04, 0x02, 0x01, 0x08, 0xB4, 0x0D, 0x0A] :: bytes"
  have h: "\<not> (length ?d < 14 \<or> py_slice ?d 0 2 \<noteq> [0x24, 0x24] \<or> py_slice ?d 4 6 \<noteq> [0x4B, 0x0B] \<or>
      \<not> validate_packet ?d)"
    by code_simp
  have "parse_status_response ?d =
      Inr (Some \<lparr>voltage = real_of_int (uint (?d ! 6) + 256 * uint (?d ! 7)) / 100,
                 battery_ok = (?d ! 8 = 0x02), charging = (?d ! 9 = 0x01)\<rparr>)"
    using parse_status_response_spec [of ?d] h by blast
  then show ?thesis by simp
qed

text \<open>
  Claim C4. When \<open>data\<close> has at least 54 bytes, header \<open>24 24\<close>, command \<open>43 01\<close>
  and \<open>validate_packet(data)\<close> holds, \<open>parse_device_info_response\<close> returns the three
  10-byte fields at offsets 6, 16 and 26, each cut back to the part before its trailing
  zero bytes (the field is that part followed by zeros only, and the part is empty or
  ends in a non-zero byte) and decoded with non-ASCII bytes dropped, so no byte value
  makes the parse fail and an all-zero field gives the empty string. An input that
  fails one of the four checks gives \<open>None\<close>.
\<close>

theorem parse_device_info_response_spec:
  "(54 \<le> length data \<and> py_slice data 0 2 = [0x24, 0x24] \<and> py_slice data 4 6 = [0x43, 0x01] \<and>
    validate_packet data \<longrightarrow>
      (\<exists>m h f km kh kf.
         parse_device_info_response data =
           Some \<lparr>model = decode_ascii_ignore m, hw_version = decode_ascii_ignore h,
                 fw_version = decode_ascii_ignore f\<rparr> \<and>
         map (\<lambda>i. data ! i) [6..<16] = m @ replicate km 0 \<and> (m = [] \<or> last m \<noteq> 0) \<and>
         map (\<lambda>i. data ! i) [16..<26] = h @ replicate kh 0 \<and> (h = [] \<or> last h \<noteq> 0) \<and>
         map (\<lambda>i. data ! i) [26..<36] = f @ replicate kf 0 \<and> (f = [] \<or> last f \<noteq> 0))) \<and>
   (\<not> (54 \<le> length data \<and> py_slice data 0 2 = [0x24, 0x24] \<and> py_slice data 4 6 = [0x43, 0x01] \<and>
       validate_packet data) \<longrightarrow>
      parse_device_info_response data = None)"
proof (intro conjI impI)
  assume ok: "54 \<le> length data \<and> py_slice data 0 2 = [0x24, 0x24] \<and>
              py_slice data 4 6 = [0x43, 0x01] \<and> validate_packet data"
  note fld = slice_map_nth
  obtain km where m: "py_slice data 6 16 = rstrip_nul (py_slice data 6 16) @ replicate km 0"
      "rstrip_nul (py_slice data 6 16) = [] \<or> last (rstrip_nul (py_slice data 6 16)) \<noteq> 0"
    using rstrip_nul_decomp [of "py_slice data 6 16"] by blast
  obtain kh where h: "py_slice data 16 26 = rstrip_nul (py_slice data 16 26) @ replicate kh 0"
      "rstrip_nul (py_slice data 16 26) = [] \<or> last (rstrip_nul (py_slice data 16 26)) \<noteq> 0"
    using rstrip_nul_decomp [of "py_slice data 16 26"] by blast
  obtain kf where f: "py_slice data 26 36 = rstrip_nul (py_slice data 26 36) @ replicate kf 0"
      "rstrip_nul (py_slice data 26 36) = [] \<or> last (rstrip_nul (py_slice data 26 36)) \<noteq> 0"
    using rstrip_nul_decomp [of "py_slice data 26 36"] by blast
  have p: "parse_device_info_response data =
      Some \<lparr>model = decode_ascii_ignore (rstrip_nul (py_slice data 6 16)),
            hw_version = decode_ascii_ignore (rstrip_nul (py_slice data 16 26)),
            fw_version = decode_ascii_ignore (rstrip_nul (py_slice data 26 36))\<rparr>"
    using ok by (simp add: parse_device_info_response_def)
  have l: "16 \<le> length data" "26 \<le> length data" "36 \<le> length data" using ok by simp_all
  show "\<exists>m h f km kh kf.
         parse_device_info_response data =
           Some \<lparr>model = decode_ascii_ignore m, hw_version = decode_ascii_ignore h,
                 fw_version = decode_ascii_ignore f\<rparr> \<and>
         map (\<lambda>i. data ! i) [6..<16] = m @ replicate km 0 \<and> (m = [] \<or> last m \<noteq> 0) \<and>
         map (\<lambda>i. data ! i) [16..<26] = h @ replicate kh 0 \<and> (h = [] \<or> last h \<noteq> 0) \<and>
         map (\<lambda>i. data ! i) [26..<36] = f @ replicate kf 0 \<and> (f = [] \<or> last f \<noteq> 0)"
    unfolding fld [OF l(1)] fld [OF l(2)] fld [OF l(3)]
    using p m h f by blast
next
  assume "\<not> (54 \<le> length data \<and> py_slice data 0 2 = [0x24, 0x24] \<and>
             py_slice data 4 6 = [0x43, 0x01] \<and> validate_packet data)"
  then show "parse_device_info_response data = None"
    by (auto simp add: parse_device_info_response_def)
qed

theorem parse_device_info_response_spec_witness:
  "(\<exists>m h f km kh kf.
      parse_device_info_response
        [0x24, 0x24, 0x36, 0x00, 0x43, 0x01,
         0x42, 0x4B, 0xFF, 0x33, 0x30, 0x30, 0, 0, 0, 0,
         0, 0, 0, 0, 0, 0, 0, 0, 0, 0,
         0x31, 0x2E, 0x30, 0x2E, 0x33, 0, 0, 0, 0, 0,
         0x39, 0x2E, 0x39, 0x2E, 0x39, 0, 0, 0, 0, 0,
         0, 4, 0, 4, 0x9B, 0x27, 0x0D, 0x0A] =
        Some \<lparr>model = decode_ascii_ignore m, hw_version = decode_ascii_ignore h,
              fw_version = decode_ascii_ignore f\<rparr> \<and>
      [0x42, 0x4B, 0xFF, 0x33, 0x30, 0x30, 0, 0, 0, 0] = m @ replicate km 0 \<and>
      (m = [] \<or> last m \<noteq> 0) \<and>
      [0, 0, 0, 0, 0, 0, 0, 0, 0, 0] = h @ replicate kh 0 \<and> (h = [] \<or> last h \<noteq> 0) \<and>
      [0x31, 0x2E, 0x30, 0x2E, 0x33, 0, 0, 0, 0, 0] = f @ replicate kf 0 \<and>
      (f = [] \<or> last f \<noteq> 0)) \<and>
   parse_device_info_response
     [0x24, 0x24, 0x36, 0x00, 0x43, 0x01,
      0x42, 0x4B, 0xFF, 0x33, 0x30, 0x30, 0, 0, 0, 0,
      0, 0, 0, 0, 0, 0, 0, 0, 0, 0,
      0x31, 0x2E, 0x30, 0x2E, 0x33, 0, 0, 0, 0, 0,
      0x39, 0x2E, 0x39, 0x2E, 0x39, 0, 0, 0, 0, 0,
      0, 4, 0, 4, 0x9B, 0x27, 0x0D, 0x0A] =
     Some \<lparr>model = ''BK300'', hw_version = [], fw_version = ''1.0.3''\<rparr>"
proof
  let ?d = "[0x24, 0x24, 0x36, 0x00, 0x43, 0x01,
         0x42, 0x4B, 0xFF, 0x33, 0x30, 0x30, 0, 0, 0, 0,
         0, 0, 0, 0, 0, 0, 0, 0, 0, 0,
         0x31, 0x2E, 0x30, 0x2E, 0x33, 0, 0, 0, 0, 0,
         0x39, 0x2E, 0x39, 0x2E, 0x39, 0, 0, 0, 0, 0,
         0, 4, 0, 4, 0x9B, 0x27, 0x0D, 0x0A] :: bytes"
  have h: "54 \<le> length ?d \<and> py_slice ?d 0 2 = [0x24, 0x24] \<and> py_slice ?d 4 6 = [0x43, 0x01] \<and>
           validate_packet ?d"
    by code_simp
  have f1: "map (\<lambda>i. ?d ! i) [6..<16] = [0x42, 0x4B, 0xFF, 0x33, 0x30, 0x30, 0, 0, 0, 0]"
    by code_simp
  have f2: "map (\<lambda>i. ?d ! i) [16..<26] = [0, 0, 0, 0, 0, 0, 0, 0, 0, 0]"
    by code_simp
  have f3: "map (\<lambda>i. ?d ! i) [26..<36] = [0x31, 0x2E, 0x30, 0x2E, 0x33, 0, 0, 0, 0, 0]"
    by code_simp
  show "\<exists>m h f km kh kf.
      parse_device_info_response ?d =
        Some \<lparr>model = decode_ascii_ignore m, hw_version = decode_ascii_ignore h,
              fw_version = decode_ascii_ignore f\<rparr> \<and>
      [0x42, 0x4B, 0xFF, 0x33, 0x30, 0x30, 0, 0, 0, 0] = m @ replicate km 0 \<and>
      (m = [] \<or> last m \<noteq> 0) \<and>
      [0, 0, 0, 0, 0, 0, 0, 0, 0, 0] = h @ replicate kh 0 \<and> (h = [] \<or> last h \<noteq> 0) \<and>
      [0x31, 0x2E, 0x30, 0x2E, 0x33, 0, 0, 0, 0, 0] = f @ replicate kf 0 \<and>
      (f = [] \<or> last f \<noteq> 0)"
    using parse_device_info_response_spec [of ?d] h unfolding f1 f2 f3 by blast
  show "parse_device_info_response ?d =
     Some \<lparr>model = ''BK300'', hw_version = [], fw_version = ''1.0.3''\<rparr>"
    by code_simp
qed

lemma slice_update_length_field:
  assumes "i \<le> j" and "j \<le> 2 \<or> 4 \<le> i"
  shows "py_slice (data[2 := a, 3 := b]) i j = py_slice data i j"
  using assms by (auto simp add: slice_update_right slice_update_left)

text \<open>
  Claim C9. Neither parser inspects the length field at bytes 2 and 3. Overwriting the
  two bytes changes the result of either parser only if it changes what
  \<open>validate_packet\<close> says; when total length, header and command code are right and
  the overwritten packet has the right footer and residue, it is accepted whatever the
  two bytes are, and the reading comes from the other bytes alone. So there is an
  accepted status packet whose length field is not \<open>0x000E\<close> and an accepted
  device-info packet whose length field is not \<open>0x0036\<close>.
\<close>

theorem length_field_not_inspected:
  "(validate_packet (data[2 := a, 3 := b]) = validate_packet data \<longrightarrow>
      parse_status_response (data[2 := a, 3 := b]) = parse_status_response data \<and>
      parse_device_info_response (data[2 := a, 3 := b]) = parse_device_info_response data) \<and>
   (14 \<le> length data \<and> py_slice data 0 2 = [0x24, 0x24] \<and>
    py_slice data 4 6 = [0x4B, 0x0B] \<and> validate_packet (data[2 := a, 3 := b]) \<longrightarrow>
      parse_status_response (data[2 := a, 3 := b]) =
        Inr (Some \<lparr>voltage = real_of_int (uint (data ! 6) + 256 * uint (data ! 7)) / 100,
                   battery_ok = (data ! 8 = 0x02),
                   charging = (data ! 9 = 0x01)\<rparr>)) \<and>
   (54 \<le> length data \<and> py_slice data 0 2 = [0x24, 0x24] \<and>
    py_slice data 4 6 = [0x43, 0x01] \<and> validate_packet (data[2 := a, 3 := b]) \<longrightarrow>
      parse_device_info_response (data[2 := a, 3 := b]) =
        Some \<lparr>model = decode_ascii_ignore (rstrip_nul (py_slice data 6 16)),
              hw_version = decode_ascii_ignore (rstrip_nul (py_slice data 16 26)),
              fw_version = decode_ascii_ignore (rstrip_nul (py_slice data 26 36))\<rparr>) \<and>
   (\<exists>d. length d = 14 \<and> py_slice d 2 4 \<noteq> [0x0E, 0x00] \<and>
        (\<exists>r. parse_status_response d = Inr (Some r))) \<and>
   (\<exists>d. length d = 54 \<and> py_slice d 2 4 \<noteq> [0x36, 0x00] \<and>
        (\<exists>r. parse_device_info_response d = Some r))"
proof (intro conjI impI)
  let ?u = "data[2 := a, 3 := b]"
  have sl: "py_slice ?u 0 2 = py_slice data 0 2" "py_slice ?u 4 6 = py_slice data 4 6"
    "py_slice ?u 6 8 = py_slice data 6 8" "py_slice ?u 6 16 = py_slice data 6 16"
    "py_slice ?u 16 26 = py_slice data 16 26" "py_slice ?u 26 36 = py_slice data 26 36"
    by (simp_all add: slice_update_length_field)
  have ix: "py_index ?u 8 = py_index data 8" "py_index ?u 9 = py_index data 9"
    by (simp_all add: py_index_def)
  {
    assume v: "validate_packet ?u = validate_packet data"
    show "parse_status_response ?u = parse_status_response data"
      by (simp add: parse_status_response_def sl ix v cong: sum.case_cong)
    show "parse_device_info_response ?u = parse_device_info_response data"
      by (simp add: parse_device_info_response_def sl v)
  }
  {
    assume h: "14 \<le> length data \<and> py_slice data 0 2 = [0x24, 0x24] \<and>
               py_slice data 4 6 = [0x4B, 0x0B] \<and> validate_packet ?u"
    then have "py_slice data 6 8 = [data ! 6, data ! Suc 6]" by (intro slice_pair) simp_all
    then have u: "unpack_H (py_slice data 6 8) = Inr (uint (data ! 6) + 256 * uint (data ! 7))"
      by simp
    have i: "py_index data 8 = Inr (data ! 8)" "py_index data 9 = Inr (data ! 9)"
      using h by (simp_all add: py_index_def)
    show "parse_status_response ?u =
        Inr (Some \<lparr>voltage = real_of_int (uint (data ! 6) + 256 * uint (data ! 7)) / 100,
                   battery_ok = (data ! 8 = 0x02),
                   charging = (data ! 9 = 0x01)\<rparr>)"
      using h by (simp add: parse_status_response_def sl ix u i)
  }
  {
    assume h: "54 \<le> length data \<and> py_slice data 0 2 = [0x24, 0x24] \<and>
               py_slice data 4 6 = [0x43, 0x01] \<and> validate_packet ?u"
    then show "parse_device_info_response ?u =
        Some \<lparr>model = decode_ascii_ignore (rstrip_nul (py_slice data 6 16)),
              hw_version = decode_ascii_ignore (rstrip_nul (py_slice data 16 26)),
              fw_version = decode_ascii_ignore (rstrip_nul (py_slice data 26 36))\<rparr>"
      by (simp add: parse_device_info_response_def sl)
  }
  let ?s = "[0x24, 0x24, 0x0F, 0x00, 0x4B, 0x0B, 0xEE, 0x04, 0x02, 0x01, 0xB7, 0x35, 0x0D, 0x0A] :: bytes"
  have "parse_status_response ?s =
          Inr (Some \<lparr>voltage = 1262 / 100, battery_ok = True, charging = True\<rparr>)"
    by code_simp
  moreover have "length ?s = 14 \<and> py_slice ?s 2 4 \<noteq> [0x0E, 0x00]" by code_simp
  ultimately show "\<exists>d. length d = 14 \<and> py_slice d 2 4 \<noteq> [0x0E, 0x00] \<and>
        (\<exists>r. parse_status_response d = Inr (Some r))" by blast
  let ?i = "[0x24, 0x24, 0x37, 0x00, 0x43, 0x01,
         0x42, 0x4B, 0x33, 0x30, 0x30, 0, 0, 0, 0, 0,
         0x31, 0x2E, 0x31, 0, 0, 0, 0, 0, 0, 0,
         0x31, 0x2E, 0x30, 0x2E, 0x33, 0, 0, 0, 0, 0,
         0x39, 0x2E, 0x39, 0x2E, 0x39, 0, 0, 0, 0, 0,
         0, 4, 0, 4, 0x49, 0xAB, 0x0D, 0x0A] :: bytes"
  have "parse_device_info_response ?i =
          Some \<lparr>model = ''BK300'', hw_version = ''1.1'', fw_version = ''1.0.3''\<rparr>"
    by code_simp
  moreover have "length ?i = 54 \<and> py_slice ?i 2 4 \<noteq> [0x36, 0x00]" by code_simp
  ultimately show "\<exists>d. length d = 54 \<and> py_slice d 2 4 \<noteq> [0x36, 0x00] \<and>
        (\<exists>r. parse_device_info_response d = Some r)" by blast
qed

text \<open>
  The hypotheses at packets whose length field is one more than documented: an invalid
  packet stays invalid, and a status and a device-info packet carrying the CRC of the
  altered length field are accepted.
\<close>

theorem length_field_not_inspected_witness:
  "parse_status_response
     ([0x24, 0x24, 0x0E, 0x00, 0x4B, 0x0B, 0xEE, 0x04, 0x02, 0x01, 0x00, 0x00, 0x0D, 0x0A]
        [2 := 0x0F, 3 := 0x00]) =
   parse_status_response
     [0x24, 0x24, 0x0E, 0x00, 0x4B, 0x0B, 0xEE, 0x04, 0x02, 0x01, 0x00, 0x00, 0x0D, 0x0A] \<and>
   parse_status_response
     ([0x24, 0x24, 0x0E, 0x00, 0x4B, 0x0B, 0xEE, 0x04, 0x02, 0x01, 0xB7, 0x35, 0x0D, 0x0A]
        [2 := 0x0F, 3 := 0x00]) =
     Inr (Some \<lparr>voltage = 1262 / 100, battery_ok = True, charging = True\<rparr>) \<and>
   parse_device_info_response
     ([0x24, 0x24, 0x36, 0x00, 0x43, 0x01,
       0x42, 0x4B, 0x33, 0x30, 0x30, 0, 0, 0, 0, 0,
       0x31, 0x2E, 0x31, 0, 0, 0, 0, 0, 0, 0,
       0x31, 0x2E, 0x30, 0x2E, 0x33, 0, 0, 0, 0, 0,
       0x39, 0x2E, 0x39, 0x2E, 0x39, 0, 0, 0, 0, 0,
       0, 4, 0, 4, 0x49, 0xAB, 0x0D, 0x0A] [2 := 0x37, 3 := 0x00]) =
     Some \<lparr>model = ''BK300'', hw_version = ''1.1'', fw_version = ''1.0.3''\<rparr>"
proof (intro conjI)
  let ?bad = "[0x24, 0x24, 0x0E, 0x00, 0x4B, 0x0B, 0xEE, 0x04, 0x02, 0x01, 0x00, 0x00, 0x0D, 0x0A] :: bytes"
  have "validate_packet (?bad[2 := 0x0F, 3 := 0x00]) = validate_packet ?bad" by code_simp
  then show "parse_status_response (?bad[2 := 0x0F, 3 := 0x00]) = parse_status_response ?bad"
    using length_field_not_inspected [of ?bad "0x0F" "0x00"] by blast
next
  let ?s = "[0x24, 0x24, 0x0E, 0x00, 0x4B, 0x0B, 0xEE, 0x04, 0x02, 0x01, 0xB7, 0x35, 0x0D, 0x0A] :: bytes"
  have h: "14 \<le> length ?s \<and> py_slice ?s 0 2 = [0x24, 0x24] \<and>
           py_slice ?s 4 6 = [0x4B, 0x0B] \<and> validate_packet (?s[2 := 0x0F, 3 := 0x00])"
    by code_simp
  have "parse_status_response (?s[2 := 0x0F, 3 := 0x00]) =
        Inr (Some \<lparr>voltage = real_of_int (uint (?s ! 6) + 256 * uint (?s ! 7)) / 100,
                   battery_ok = (?s ! 8 = 0x02), charging = (?s ! 9 = 0x01)\<rparr>)"
    using length_field_not_inspected [of ?s "0x0F" "0x00"] h by blast
  also have "\<dots> = Inr (Some \<lparr>voltage = 1262 / 100, battery_ok = True, charging = True\<rparr>)"
    by simp
  finally show "parse_status_response (?s[2 := 0x0F, 3 := 0x00]) =
     Inr (Some \<lparr>voltage = 1262 / 100, battery_ok = True, charging = True\<rparr>)" .
next
  let ?i = "[0x24, 0x24, 0x36, 0x00, 0x43, 0x01,
       0x42, 0x4B, 0x33, 0x30, 0x30, 0, 0, 0, 0, 0,
       0x31, 0x2E, 0x31, 0, 0, 0, 0, 0, 0, 0,
       0x31, 0x2E, 0x30, 0x2E, 0x33, 0, 0, 0, 0, 0,
       0x39, 0x2E, 0x39, 0x2E, 0x39, 0, 0, 0, 0, 0,
       0, 4, 0, 4, 0x49, 0xAB, 0x0D, 0x0A] :: bytes"
  have h: "54 \<le> length ?i \<and> py_slice ?i 0 2 = [0x24, 0x24] \<and>
           py_slice ?i 4 6 = [0x43, 0x01] \<and> validate_packet (?i[2 := 0x37, 3 := 0x00])"
    by code_simp
  have "parse_device_info_response (?i[2 := 0x37, 3 := 0x00]) =
        Some \<lparr>model = decode_ascii_ignore (rstrip_nul (py_slice ?i 6 16)),
              hw_version = decode_ascii_ignore (rstrip_nul (py_slice ?i 16 26)),
              fw_version = decode_ascii_ignore (rstrip_nul (py_slice ?i 26 36))\<rparr>"
    using length_field_not_inspected [of ?i "0x37" "0x00"] h by blast
  also have "\<dots> = Some \<lparr>model = ''BK300'', hw_version = ''1.1'', fw_version = ''1.0.3''\<rparr>"
    by code_simp
  finally show "parse_device_info_response (?i[2 := 0x37, 3 := 0x00]) =
     Some \<lparr>model = ''BK300'', hw_version = ''1.1'', fw_version = ''1.0.3''\<rparr>" .
qed

section \<open>Properties of the polling session\<close>

subsection \<open>Notifications and the armed wait\<close>

lemma notification_handler_device_info:
  "self_device_info (notification_handler s d) = self_device_info s"
  by (simp add: notification_handler_def Let_def split: option.splits)

lemma foldl_notification_handler_device_info:
  "self_device_info (foldl notification_handler s ns) = self_device_info s"
  by (induction ns arbitrary: s) (simp_all add: notification_handler_device_info)

lemma notification_handler_armed:
  "self_response_event s \<noteq> None \<Longrightarrow>
   notification_handler s d = s\<lparr>self_response_data := Some d, self_response_event := Some True\<rparr>"
  by (auto simp add: notification_handler_def Let_def split: option.splits)

lemma foldl_notification_handler_armed:
  "self_response_event s \<noteq> None \<Longrightarrow> ns \<noteq> [] \<Longrightarrow>
   foldl notification_handler s ns =
     s\<lparr>self_response_data := Some (last ns), self_response_event := Some True\<rparr>"
proof (induction ns arbitrary: s)
  case Nil
  then show ?case by simp
next
  case (Cons d ns)
  show ?case
  proof (cases "ns = []")
    case True
    then show ?thesis using Cons.prems by (simp add: notification_handler_armed)
  next
    case False
    have "self_response_event (notification_handler s d) \<noteq> None"
      using Cons.prems by (simp add: notification_handler_armed)
    then show ?thesis
      using Cons.IH [of "notification_handler s d"] False Cons.prems
      by (simp add: notification_handler_armed)
  qed
qed

lemma wait_for_response_armed:
  "wait_for_response (s\<lparr>self_response_data := None, self_response_event := Some False\<rparr>) ns =
     (if ns = [] then (False, s\<lparr>self_response_data := None, self_response_event := Some False\<rparr>)
      else (True, s\<lparr>self_response_data := Some (last ns), self_response_event := Some True\<rparr>))"
  by (simp add: wait_for_response_def Let_def foldl_notification_handler_armed)

lemma fetch_device_info_cases:
  "fetch_device_info s x =
     (if self_device_info s \<noteq> None then (Inr (), s, [])
      else if \<not> write_ok x
        then (Inl BleakError,
              s\<lparr>self_response_data := None, self_response_event := Some False\<rparr>,
              [Write CMD_DEVICE_INFO])
      else if notifications x = []
        then (Inl (UpdateFailed DeviceInfoQueryTimeout),
              s\<lparr>self_response_data := None, self_response_event := Some False\<rparr>,
              [Write CMD_DEVICE_INFO])
      else if last (notifications x) = []
        then (Inl (UpdateFailed NoDeviceInfoResponse),
              s\<lparr>self_response_data := Some [], self_response_event := Some True\<rparr>,
              [Write CMD_DEVICE_INFO])
      else case parse_device_info_response (last (notifications x)) of
             None \<Rightarrow>
               (Inl (UpdateFailed InvalidDeviceInfoResponse),
                s\<lparr>self_response_data := Some (last (notifications x)),
                  self_response_event := Some True\<rparr>,
                [Write CMD_DEVICE_INFO, ParseDeviceInfo (last (notifications x))])
           | Some info \<Rightarrow>
               (Inr (),
                s\<lparr>self_response_data := Some (last (notifications x)),
                  self_response_event := Some True, self_device_info := Some info\<rparr>,
                [Write CMD_DEVICE_INFO, ParseDeviceInfo (last (notifications x))]))"
  by (simp add: fetch_device_info_def Let_def wait_for_response_armed split: option.splits)

lemma poll_status_cases:
  "poll_status s x =
     (if \<not> write_ok x
        then (Inl BleakError,
              s\<lparr>self_response_data := None, self_response_event := Some False\<rparr>,
              [Write CMD_STATUS_POLL])
      else if notifications x = []
        then (Inl (UpdateFailed StatusPollTimeout),
              s\<lparr>self_response_data := None, self_response_event := Some False\<rparr>,
              [Write CMD_STATUS_POLL])
      else if last (notifications x) = []
        then (Inl (UpdateFailed NoStatusResponse),
              s\<lparr>self_response_data := Some [], self_response_event := Some True\<rparr>,
              [Write CMD_STATUS_POLL])
      else case parse_status_response (last (notifications x)) of
             Inl e \<Rightarrow>
               (Inl (CodecError e),
                s\<lparr>self_response_data := Some (last (notifications x)),
                  self_response_event := Some True\<rparr>,
                [Write CMD_STATUS_POLL, ParseStatus (last (notifications x))])
           | Inr None \<Rightarrow>
               (Inl (UpdateFailed InvalidStatusResponse),
                s\<lparr>self_response_data := Some (last (notifications x)),
                  self_response_event := Some True\<rparr>,
                [Write CMD_STATUS_POLL, ParseStatus (last (notifications x))])
           | Inr (Some status) \<Rightarrow>
               (Inr status,
                s\<lparr>self_response_data := Some (last (notifications x)),
                  self_response_event := Some True\<rparr>,
                [Write CMD_STATUS_POLL, ParseStatus (last (notifications x))]))"
  by (simp add: poll_status_def Let_def wait_for_response_armed split: option.splits sum.splits)

subsection \<open>The identity fetch and the cycle\<close>

lemma commands_differ: "CMD_STATUS_POLL \<noteq> CMD_DEVICE_INFO"
  by (simp add: CMD_STATUS_POLL_def CMD_DEVICE_INFO_def)

lemma fetch_device_info_Inl:
  assumes "fetch_device_info s x = (Inl e, s', tr)"
  shows "self_device_info s = None \<and> self_device_info s' = None \<and>
         tr \<noteq> [] \<and> writes tr = [CMD_DEVICE_INFO]"
  using assms
  by (auto simp add: fetch_device_info_cases split: if_splits option.splits)

lemma fetch_device_info_Inr:
  assumes "fetch_device_info s x = (Inr u, s', tr)"
  shows "self_device_info s' \<noteq> None \<and>
         (self_device_info s \<noteq> None \<longrightarrow> s' = s \<and> tr = []) \<and>
         (self_device_info s = None \<longrightarrow> writes tr = [CMD_DEVICE_INFO])"
  using assms
  by (auto simp add: fetch_device_info_cases split: if_splits option.splits)

lemma poll_status_device_info:
  "self_device_info (fst (snd (poll_status s x))) = self_device_info s"
  by (simp add: poll_status_cases split: option.splits sum.splits)

lemma poll_status_writes': "poll_status s x = (r, s', tr) \<Longrightarrow> writes tr = [CMD_STATUS_POLL]"
  by (auto simp add: poll_status_cases split: if_splits option.splits sum.splits)

lemma finally_clear_device_info: "self_device_info (finally_clear s) = self_device_info s"
  by (simp add: finally_clear_def)

lemma writes_append: "writes (xs @ ys) = writes xs @ writes ys"
  by (induction xs rule: writes.induct) simp_all

lemma async_update_data_connected:
  assumes "device_found env" and "connect_ok env"
  shows "async_update_data s env =
     (case fetch_device_info (foldl notification_handler s (early_notifications env))
             (info_exchange env) of
        (Inl e, s1, tr1) \<Rightarrow> (except_bleak (Inl e), finally_clear s1, tr1)
      | (Inr u, s1, tr1) \<Rightarrow>
          (case poll_status s1 (status_exchange env) of
             (r, s2, tr2) \<Rightarrow> (except_bleak r, finally_clear s2, tr1 @ tr2)))"
  using assms by (simp add: async_update_data_def Let_def)


lemma async_update_data_Inr:
  assumes "async_update_data s env = (Inr st, s', tr)"
  shows "self_device_info s' \<noteq> None"
proof -
  have d: "device_found env" "connect_ok env"
    using assms by (auto simp add: async_update_data_def split: if_splits)
  let ?s0 = "foldl notification_handler s (early_notifications env)"
  obtain r s1 tr1 where f: "fetch_device_info ?s0 (info_exchange env) = (r, s1, tr1)"
    by (cases "fetch_device_info ?s0 (info_exchange env)") auto
  show ?thesis
  proof (cases r)
    case (Inl e)
    then show ?thesis using assms f
      by (cases e) (simp_all add: async_update_data_connected [OF d])
  next
    case (Inr u)
    then have c: "self_device_info s1 \<noteq> None" using f fetch_device_info_Inr by blast
    obtain r2 s2 tr2 where p: "poll_status s1 (status_exchange env) = (r2, s2, tr2)"
      by (cases "poll_status s1 (status_exchange env)") auto
    have "self_device_info s2 = self_device_info s1"
      using poll_status_device_info [of s1 "status_exchange env"] p by simp
    moreover have "s' = finally_clear s2"
      using assms f Inr p by (simp add: async_update_data_connected [OF d])
    ultimately show ?thesis using c by (simp add: finally_clear_def)
  qed
qed

lemma async_update_data_cached:
  assumes "self_device_info s \<noteq> None" and "device_found env" and "connect_ok env"
  shows "writes (snd (snd (async_update_data s env))) = [CMD_STATUS_POLL] \<and>
         self_device_info (fst (snd (async_update_data s env))) = self_device_info s"
proof -
  let ?s0 = "foldl notification_handler s (early_notifications env)"
  have c: "self_device_info ?s0 = self_device_info s"
    by (simp add: foldl_notification_handler_device_info)
  then have f: "fetch_device_info ?s0 (info_exchange env) = (Inr (), ?s0, [])"
    using assms(1) by (simp add: fetch_device_info_def)
  obtain r2 s2 tr2 where p: "poll_status ?s0 (status_exchange env) = (r2, s2, tr2)"
    by (cases "poll_status ?s0 (status_exchange env)") auto
  have "writes tr2 = [CMD_STATUS_POLL]" using p by (rule poll_status_writes')
  moreover have "self_device_info s2 = self_device_info ?s0"
    using poll_status_device_info [of ?s0 "status_exchange env"] p by simp
  ultimately show ?thesis
    using f p c by (simp add: async_update_data_connected [OF assms(2,3)] finally_clear_def)
qed

text \<open>
  Claim C5. In a poll cycle whose device-identity exchange fails (no notification
  before the timeout, an empty response, or a response that does not parse), the cycle
  fails with that failure, the identity stays unset, and the only packet written is the
  device-info command: the status-poll command is never written. In any cycle, the
  status-poll command is written only if the identity fetch of that cycle has returned
  normally.
\<close>

theorem identity_failure_aborts_cycle:
  "(device_found env \<and> connect_ok env \<and> self_device_info s = None \<and>
    write_ok (info_exchange env) \<and>
    (notifications (info_exchange env) = [] \<or>
     last (notifications (info_exchange env)) = [] \<or>
     parse_device_info_response (last (notifications (info_exchange env))) = None) \<longrightarrow>
      (\<exists>s' tr. async_update_data s env =
          (Inl (UpdateFailed
             (if notifications (info_exchange env) = [] then DeviceInfoQueryTimeout
              else if last (notifications (info_exchange env)) = [] then NoDeviceInfoResponse
              else InvalidDeviceInfoResponse)), s', tr) \<and>
          writes tr = [CMD_DEVICE_INFO] \<and> CMD_STATUS_POLL \<notin> set (writes tr) \<and>
          self_device_info s' = None)) \<and>
   (CMD_STATUS_POLL \<in> set (writes (snd (snd (async_update_data t env')))) \<longrightarrow>
      (\<exists>s1 tr1. fetch_device_info (foldl notification_handler t (early_notifications env'))
                   (info_exchange env') = (Inr (), s1, tr1)))"
proof (intro conjI impI)
  assume h: "device_found env \<and> connect_ok env \<and> self_device_info s = None \<and>
    write_ok (info_exchange env) \<and>
    (notifications (info_exchange env) = [] \<or>
     last (notifications (info_exchange env)) = [] \<or>
     parse_device_info_response (last (notifications (info_exchange env))) = None)"
  then have d: "device_found env" "connect_ok env" by simp_all
  let ?s0 = "foldl notification_handler s (early_notifications env)"
  have c: "self_device_info ?s0 = None"
    using h by (simp add: foldl_notification_handler_device_info)
  show "\<exists>s' tr. async_update_data s env =
          (Inl (UpdateFailed
             (if notifications (info_exchange env) = [] then DeviceInfoQueryTimeout
              else if last (notifications (info_exchange env)) = [] then NoDeviceInfoResponse
              else InvalidDeviceInfoResponse)), s', tr) \<and>
          writes tr = [CMD_DEVICE_INFO] \<and> CMD_STATUS_POLL \<notin> set (writes tr) \<and>
          self_device_info s' = None"
    using h c commands_differ
    by (auto simp add: async_update_data_connected [OF d] fetch_device_info_cases
        finally_clear_def)
next
  let ?t0 = "foldl notification_handler t (early_notifications env')"
  assume w: "CMD_STATUS_POLL \<in> set (writes (snd (snd (async_update_data t env'))))"
  then have d: "device_found env'" "connect_ok env'"
    by (auto simp add: async_update_data_def split: if_splits)
  obtain r s1 tr1 where f: "fetch_device_info ?t0 (info_exchange env') = (r, s1, tr1)"
    by (cases "fetch_device_info ?t0 (info_exchange env')") auto
  show "\<exists>s1 tr1. fetch_device_info ?t0 (info_exchange env') = (Inr (), s1, tr1)"
  proof (cases r)
    case (Inl e)
    then have "writes tr1 = [CMD_DEVICE_INFO]" using f fetch_device_info_Inl by blast
    then have "CMD_STATUS_POLL \<notin> set (writes (snd (snd (async_update_data t env'))))"
      using f Inl commands_differ by (simp add: async_update_data_connected [OF d])
    with w show ?thesis by simp
  next
    case (Inr u)
    then show ?thesis using f by simp
  qed
qed

theorem identity_failure_aborts_cycle_witness:
  "(\<exists>s' tr.
      async_update_data init_coordinator
        \<lparr>device_found = True, connect_ok = True, early_notifications = [],
         info_exchange = \<lparr>write_ok = True, notifications = []\<rparr>,
         status_exchange = \<lparr>write_ok = True, notifications = []\<rparr>\<rparr> =
        (Inl (UpdateFailed DeviceInfoQueryTimeout), s', tr) \<and>
      writes tr = [CMD_DEVICE_INFO] \<and> CMD_STATUS_POLL \<notin> set (writes tr) \<and>
      self_device_info s' = None) \<and>
   (\<exists>s1 tr1.
      fetch_device_info
        (init_coordinator\<lparr>self_device_info :=
           Some \<lparr>model = ''BK300'', hw_version = ''1.1'', fw_version = ''1.0.3''\<rparr>\<rparr>)
        \<lparr>write_ok = True, notifications = []\<rparr> = (Inr (), s1, tr1))"
proof -
  let ?env = "\<lparr>device_found = True, connect_ok = True, early_notifications = [],
         info_exchange = \<lparr>write_ok = True, notifications = []\<rparr>,
         status_exchange = \<lparr>write_ok = True, notifications = []\<rparr>\<rparr>"
  let ?t = "init_coordinator\<lparr>self_device_info :=
           Some \<lparr>model = ''BK300'', hw_version = ''1.1'', fw_version = ''1.0.3''\<rparr>\<rparr>"
  have h1: "device_found ?env \<and> connect_ok ?env \<and> self_device_info init_coordinator = None \<and>
    write_ok (info_exchange ?env) \<and>
    (notifications (info_exchange ?env) = [] \<or>
     last (notifications (info_exchange ?env)) = [] \<or>
     parse_device_info_response (last (notifications (info_exchange ?env))) = None)"
    by (simp add: init_coordinator_def)
  have h2: "CMD_STATUS_POLL \<in> set (writes (snd (snd (async_update_data ?t ?env))))"
    by (simp add: async_update_data_def fetch_device_info_def poll_status_def
        wait_for_response_def init_coordinator_def Let_def)
  show ?thesis
    using identity_failure_aborts_cycle [of ?env init_coordinator ?t ?env] h1 h2 by simp
qed

text \<open>
  Claim C6. Once the identity is cached, the identity fetch returns at once: it writes
  nothing and leaves the whole session state, the cache included, as it was. A poll
  cycle that starts with a cached identity and reaches the device writes exactly one
  packet, the status-poll command, and keeps the cache; so does every cycle that follows
  a successful one in the same session, which writes no device-info command.
\<close>

theorem cached_identity_no_io:
  "(self_device_info s \<noteq> None \<longrightarrow> fetch_device_info s x = (Inr (), s, [])) \<and>
   (self_device_info s \<noteq> None \<and> device_found env \<and> connect_ok env \<longrightarrow>
      writes (snd (snd (async_update_data s env))) = [CMD_STATUS_POLL] \<and>
      self_device_info (fst (snd (async_update_data s env))) = self_device_info s) \<and>
   (async_update_data s0 env1 = (Inr st, s1, tr1) \<and> device_found env2 \<and> connect_ok env2 \<longrightarrow>
      writes (snd (snd (async_update_data s1 env2))) = [CMD_STATUS_POLL] \<and>
      CMD_DEVICE_INFO \<notin> set (writes (snd (snd (async_update_data s1 env2)))))"
proof (intro conjI impI)
  assume "self_device_info s \<noteq> None"
  then show "fetch_device_info s x = (Inr (), s, [])" by (simp add: fetch_device_info_def)
next
  assume "self_device_info s \<noteq> None \<and> device_found env \<and> connect_ok env"
  then have "writes (snd (snd (async_update_data s env))) = [CMD_STATUS_POLL] \<and>
      self_device_info (fst (snd (async_update_data s env))) = self_device_info s"
    using async_update_data_cached by blast
  then show "writes (snd (snd (async_update_data s env))) = [CMD_STATUS_POLL]"
    and "self_device_info (fst (snd (async_update_data s env))) = self_device_info s"
    by simp_all
next
  assume h: "async_update_data s0 env1 = (Inr st, s1, tr1) \<and> device_found env2 \<and> connect_ok env2"
  then have "self_device_info s1 \<noteq> None" using async_update_data_Inr by blast
  then have w: "writes (snd (snd (async_update_data s1 env2))) = [CMD_STATUS_POLL]"
    using h async_update_data_cached by blast
  then show "writes (snd (snd (async_update_data s1 env2))) = [CMD_STATUS_POLL]" .
  show "CMD_DEVICE_INFO \<notin> set (writes (snd (snd (async_update_data s1 env2))))"
    using w commands_differ by auto
qed

theorem cached_identity_no_io_witness:
  "fetch_device_info (init_coordinator\<lparr>self_device_info := Some \<lparr>model = ''BK300'', hw_version = ''1.1'', fw_version = ''1.0.3''\<rparr>\<rparr>) \<lparr>write_ok = True, notifications = []\<rparr> =
     (Inr (), (init_coordinator\<lparr>self_device_info := Some \<lparr>model = ''BK300'', hw_version = ''1.1'', fw_version = ''1.0.3''\<rparr>\<rparr>), []) \<and>
   writes (snd (snd (async_update_data (init_coordinator\<lparr>self_device_info := Some \<lparr>model = ''BK300'', hw_version = ''1.1'', fw_version = ''1.0.3''\<rparr>\<rparr>)
       \<lparr>device_found = True, connect_ok = True, early_notifications = [],
         info_exchange = \<lparr>write_ok = True, notifications = []\<rparr>,
         status_exchange = \<lparr>write_ok = True, notifications = []\<rparr>\<rparr>))) = [CMD_STATUS_POLL] \<and>
   writes (snd (snd (async_update_data
       (fst (snd (async_update_data init_coordinator
          \<lparr>device_found = True, connect_ok = True, early_notifications = [],
         info_exchange = \<lparr>write_ok = True, notifications = [[0x24, 0x24, 0x36, 0x00, 0x43, 0x01,
          0x42, 0x4B, 0x33, 0x30, 0x30, 0, 0, 0, 0, 0,
          0x31, 0x2E, 0x31, 0, 0, 0, 0, 0, 0, 0,
          0x31, 0x2E, 0x30, 0x2E, 0x33, 0, 0, 0, 0, 0,
          0x39, 0x2E, 0x39, 0x2E, 0x39, 0, 0, 0, 0, 0,
          0, 4, 0, 4, 0x33, 0xE6, 0x0D, 0x0A]]\<rparr>,
         status_exchange = \<lparr>write_ok = True, notifications = [[0x24, 0x24, 0x0E, 0x00, 0x4B, 0x0B, 0xEE, 0x04, 0x02, 0x01, 0x08, 0xB4, 0x0D, 0x0A]]\<rparr>\<rparr>)))
       \<lparr>device_found = True, connect_ok = True, early_notifications = [],
         info_exchange = \<lparr>write_ok = True, notifications = []\<rparr>,
         status_exchange = \<lparr>write_ok = True, notifications = [[0x24, 0x24, 0x0E, 0x00, 0x4B, 0x0B, 0xEE, 0x04, 0x02, 0x01, 0x08, 0xB4, 0x0D, 0x0A]]\<rparr>\<rparr>))) = [CMD_STATUS_POLL]"
proof (intro conjI)
  let ?t = "(init_coordinator\<lparr>self_device_info := Some \<lparr>model = ''BK300'', hw_version = ''1.1'', fw_version = ''1.0.3''\<rparr>\<rparr>)"
  let ?e0 = "\<lparr>device_found = True, connect_ok = True, early_notifications = [],
         info_exchange = \<lparr>write_ok = True, notifications = []\<rparr>,
         status_exchange = \<lparr>write_ok = True, notifications = []\<rparr>\<rparr>"
  let ?e1 = "\<lparr>device_found = True, connect_ok = True, early_notifications = [],
         info_exchange = \<lparr>write_ok = True, notifications = [[0x24, 0x24, 0x36, 0x00, 0x43, 0x01,
          0x42, 0x4B, 0x33, 0x30, 0x30, 0, 0, 0, 0, 0,
          0x31, 0x2E, 0x31, 0, 0, 0, 0, 0, 0, 0,
          0x31, 0x2E, 0x30, 0x2E, 0x33, 0, 0, 0, 0, 0,
          0x39, 0x2E, 0x39, 0x2E, 0x39, 0, 0, 0, 0, 0,
          0, 4, 0, 4, 0x33, 0xE6, 0x0D, 0x0A]]\<rparr>,
         status_exchange = \<lparr>write_ok = True, notifications = [[0x24, 0x24, 0x0E, 0x00, 0x4B, 0x0B, 0xEE, 0x04, 0x02, 0x01, 0x08, 0xB4, 0x0D, 0x0A]]\<rparr>\<rparr>"
  let ?e2 = "\<lparr>device_found = True, connect_ok = True, early_notifications = [],
         info_exchange = \<lparr>write_ok = True, notifications = []\<rparr>,
         status_exchange = \<lparr>write_ok = True, notifications = [[0x24, 0x24, 0x0E, 0x00, 0x4B, 0x0B, 0xEE, 0x04, 0x02, 0x01, 0x08, 0xB4, 0x0D, 0x0A]]\<rparr>\<rparr>"
  have c: "self_device_info ?t \<noteq> None" by (simp add: init_coordinator_def)
  show "fetch_device_info ?t \<lparr>write_ok = True, notifications = []\<rparr> = (Inr (), ?t, [])"
    using cached_identity_no_io [of ?t "\<lparr>write_ok = True, notifications = []\<rparr>"] c by blast
  have "self_device_info ?t \<noteq> None \<and> device_found ?e0 \<and> connect_ok ?e0" using c by simp
  then show "writes (snd (snd (async_update_data ?t ?e0))) = [CMD_STATUS_POLL]"
    using cached_identity_no_io [of ?t _ ?e0] by blast
  have r: "fst (async_update_data init_coordinator ?e1) =
             Inr \<lparr>voltage = 1262 / 100, battery_ok = True, charging = True\<rparr>"
    by code_simp
  obtain s1 tr1 where
    "async_update_data init_coordinator ?e1 =
       (Inr \<lparr>voltage = 1262 / 100, battery_ok = True, charging = True\<rparr>, s1, tr1)"
    using r by (cases "async_update_data init_coordinator ?e1") auto
  then have "async_update_data init_coordinator ?e1 =
       (Inr \<lparr>voltage = 1262 / 100, battery_ok = True, charging = True\<rparr>, s1, tr1) \<and>
       device_found ?e2 \<and> connect_ok ?e2"
    and s1: "fst (snd (async_update_data init_coordinator ?e1)) = s1"
    by simp_all
  then have "writes (snd (snd (async_update_data s1 ?e2))) = [CMD_STATUS_POLL]"
    using cached_identity_no_io [of _ _ _ init_coordinator ?e1 _ s1 tr1 ?e2] by blast
  then show "writes (snd (snd (async_update_data
       (fst (snd (async_update_data init_coordinator ?e1))) ?e2))) = [CMD_STATUS_POLL]"
    by (simp only: s1)
qed

text \<open>
  Claim C7. An identity exchange that meets no notification before the timeout, an empty
  response, or bytes that do not parse, fails. Whenever the exchange fails, the cached
  identity is what it was, namely unset, so the next call writes the device-info command
  again and, given a response that parses, caches it. The cache changes only when the
  call returns normally, and then to the parse of the delivered bytes.
\<close>

theorem failed_identity_exchange_keeps_cache:
  "(self_device_info s = None \<and> write_ok x \<and>
    (notifications x = [] \<or> last (notifications x) = [] \<or>
     parse_device_info_response (last (notifications x)) = None) \<longrightarrow>
      (\<exists>e s' tr. fetch_device_info s x = (Inl e, s', tr))) \<and>
   (fetch_device_info s x = (Inl e, s', tr) \<longrightarrow>
      self_device_info s' = self_device_info s \<and> self_device_info s' = None \<and>
      writes (snd (snd (fetch_device_info s' x'))) = [CMD_DEVICE_INFO] \<and>
      (write_ok x' \<and> notifications x' \<noteq> [] \<and>
       parse_device_info_response (last (notifications x')) = Some info \<longrightarrow>
         fst (fetch_device_info s' x') = Inr () \<and>
         self_device_info (fst (snd (fetch_device_info s' x'))) = Some info)) \<and>
   (fetch_device_info s x = (r, s', tr) \<and> self_device_info s' \<noteq> self_device_info s \<longrightarrow>
      r = Inr () \<and> notifications x \<noteq> [] \<and>
      self_device_info s' = parse_device_info_response (last (notifications x)))"
proof (intro conjI impI)
  assume "self_device_info s = None \<and> write_ok x \<and>
    (notifications x = [] \<or> last (notifications x) = [] \<or>
     parse_device_info_response (last (notifications x)) = None)"
  then show "\<exists>e s' tr. fetch_device_info s x = (Inl e, s', tr)"
    by (auto simp add: fetch_device_info_cases)
next
  assume f: "fetch_device_info s x = (Inl e, s', tr)"
  then have n: "self_device_info s = None" "self_device_info s' = None"
    using fetch_device_info_Inl by blast+
  show "self_device_info s' = self_device_info s" using n by simp
  show "self_device_info s' = None" by (rule n(2))
  show "writes (snd (snd (fetch_device_info s' x'))) = [CMD_DEVICE_INFO]"
    using n(2) by (simp add: fetch_device_info_cases split: option.splits)
  {
    assume h: "write_ok x' \<and> notifications x' \<noteq> [] \<and>
       parse_device_info_response (last (notifications x')) = Some info"
    then have "last (notifications x') \<noteq> []"
      by (auto simp add: parse_device_info_response_def)
    then show "fst (fetch_device_info s' x') = Inr ()"
      and "self_device_info (fst (snd (fetch_device_info s' x'))) = Some info"
      using h n(2) by (simp_all add: fetch_device_info_cases)
  }
next
  assume h: "fetch_device_info s x = (r, s', tr) \<and> self_device_info s' \<noteq> self_device_info s"
  then show "r = Inr ()" and "notifications x \<noteq> []"
    and "self_device_info s' = parse_device_info_response (last (notifications x))"
    by (auto simp add: fetch_device_info_cases split: if_splits option.splits)
qed

theorem failed_identity_exchange_keeps_cache_witness:
  "(\<exists>e s' tr. fetch_device_info init_coordinator \<lparr>write_ok = True, notifications = []\<rparr> = (Inl e, s', tr)) \<and>
   self_device_info (init_coordinator\<lparr>self_response_data := None, self_response_event := Some False\<rparr>) = None \<and>
   writes (snd (snd (fetch_device_info (init_coordinator\<lparr>self_response_data := None, self_response_event := Some False\<rparr>)
       \<lparr>write_ok = True, notifications = [[0x24, 0x24, 0x36, 0x00, 0x43, 0x01,
          0x42, 0x4B, 0x33, 0x30, 0x30, 0, 0, 0, 0, 0,
          0x31, 0x2E, 0x31, 0, 0, 0, 0, 0, 0, 0,
          0x31, 0x2E, 0x30, 0x2E, 0x33, 0, 0, 0, 0, 0,
          0x39, 0x2E, 0x39, 0x2E, 0x39, 0, 0, 0, 0, 0,
          0, 4, 0, 4, 0x33, 0xE6, 0x0D, 0x0A]]\<rparr>))) = [CMD_DEVICE_INFO] \<and>
   self_device_info (fst (snd (fetch_device_info (init_coordinator\<lparr>self_response_data := None, self_response_event := Some False\<rparr>)
       \<lparr>write_ok = True, notifications = [[0x24, 0x24, 0x36, 0x00, 0x43, 0x01,
          0x42, 0x4B, 0x33, 0x30, 0x30, 0, 0, 0, 0, 0,
          0x31, 0x2E, 0x31, 0, 0, 0, 0, 0, 0, 0,
          0x31, 0x2E, 0x30, 0x2E, 0x33, 0, 0, 0, 0, 0,
          0x39, 0x2E, 0x39, 0x2E, 0x39, 0, 0, 0, 0, 0,
          0, 4, 0, 4, 0x33, 0xE6, 0x0D, 0x0A]]\<rparr>))) = Some \<lparr>model = ''BK300'', hw_version = ''1.1'', fw_version = ''1.0.3''\<rparr>"
proof -
  let ?x = "\<lparr>write_ok = True, notifications = []\<rparr>"
  let ?x' = "\<lparr>write_ok = True, notifications = [[0x24, 0x24, 0x36, 0x00, 0x43, 0x01,
          0x42, 0x4B, 0x33, 0x30, 0x30, 0, 0, 0, 0, 0,
          0x31, 0x2E, 0x31, 0, 0, 0, 0, 0, 0, 0,
          0x31, 0x2E, 0x30, 0x2E, 0x33, 0, 0, 0, 0, 0,
          0x39, 0x2E, 0x39, 0x2E, 0x39, 0, 0, 0, 0, 0,
          0, 4, 0, 4, 0x33, 0xE6, 0x0D, 0x0A]]\<rparr>"
  let ?s' = "(init_coordinator\<lparr>self_response_data := None, self_response_event := Some False\<rparr>)"
  have h1: "self_device_info init_coordinator = None \<and> write_ok ?x \<and>
    (notifications ?x = [] \<or> last (notifications ?x) = [] \<or>
     parse_device_info_response (last (notifications ?x)) = None)"
    by (simp add: init_coordinator_def)
  have a: "\<exists>e s' tr. fetch_device_info init_coordinator ?x = (Inl e, s', tr)"
    using failed_identity_exchange_keeps_cache [of init_coordinator ?x] h1 by blast
  have f: "fetch_device_info init_coordinator ?x =
             (Inl (UpdateFailed DeviceInfoQueryTimeout), ?s', [Write CMD_DEVICE_INFO])"
    by (simp add: fetch_device_info_def wait_for_response_def init_coordinator_def Let_def)
  have p: "write_ok ?x' \<and> notifications ?x' \<noteq> [] \<and>
       parse_device_info_response (last (notifications ?x')) = Some \<lparr>model = ''BK300'', hw_version = ''1.1'', fw_version = ''1.0.3''\<rparr>"
    by code_simp
  have b: "self_device_info ?s' = None \<and>
      writes (snd (snd (fetch_device_info ?s' ?x'))) = [CMD_DEVICE_INFO] \<and>
      self_device_info (fst (snd (fetch_device_info ?s' ?x'))) = Some \<lparr>model = ''BK300'', hw_version = ''1.1'', fw_version = ''1.0.3''\<rparr>"
    using failed_identity_exchange_keeps_cache
      [of init_coordinator ?x "UpdateFailed DeviceInfoQueryTimeout" ?s' "[Write CMD_DEVICE_INFO]" ?x' "\<lparr>model = ''BK300'', hw_version = ''1.1'', fw_version = ''1.0.3''\<rparr>"]
      f p by blast
  from a b show ?thesis by blast
qed




end
